theory Spec2Isabelle
  imports Complex_Main "HOL-Library.Sublist"
begin

section \<open>Python string operations used by the adapter\<close>

text \<open>
  Strings are lists of 8-bit characters. The names and file names of the data set are
  read as ASCII text: \<open>str.lower\<close> maps \<open>A\<close>..\<open>Z\<close> to \<open>a\<close>..\<open>z\<close> and leaves every
  other character alone, and \<open>str.split()\<close> splits at the ASCII whitespace characters.
\<close>

definition lower_char :: "char \<Rightarrow> char" where
  "lower_char c =
     (let n = (of_char c :: nat) in if 65 \<le> n \<and> n \<le> 90 then char_of (n + 32) else c)"

definition lower :: "string \<Rightarrow> string" where
  "lower s = map lower_char s"

text \<open>
  \<open>s.replace(old, new)\<close> with a non-empty \<open>old\<close>: scan from the left, replace every
  occurrence, and go on after the replaced occurrence (occurrences do not overlap).
\<close>

fun replace_from :: "string \<Rightarrow> string \<Rightarrow> string \<Rightarrow> string" where
  "replace_from old new [] = []"
| "replace_from old new (c # cs) =
     (if old \<noteq> [] \<and> prefix old (c # cs)
      then new @ replace_from old new (drop (length old - 1) cs)
      else c # replace_from old new cs)"

text \<open>
  \<open>s.replace(old, new)\<close>. With an empty \<open>old\<close> Python puts \<open>new\<close> before every
  character and at the end.
\<close>

definition str_replace :: "string \<Rightarrow> string \<Rightarrow> string \<Rightarrow> string" where
  "str_replace s old new =
     (if old = [] then new @ concat (map (\<lambda>c. c # new) s) else replace_from old new s)"

definition is_space :: "char \<Rightarrow> bool" where
  "is_space c = (c \<in> set [CHR 0x09, CHR 0x0A, CHR 0x0B, CHR 0x0C, CHR 0x0D,
                            CHR 0x1C, CHR 0x1D, CHR 0x1E, CHR 0x1F, CHR 0x20])"

text \<open>\<open>s.split()\<close>: the maximal runs of non-whitespace characters, in order.\<close>

fun split_from :: "string \<Rightarrow> string \<Rightarrow> string list" where
  "split_from w [] = (if w = [] then [] else [w])"
| "split_from w (c # cs) =
     (if is_space c then (if w = [] then [] else [w]) @ split_from [] cs
      else split_from (w @ [c]) cs)"

definition str_split :: "string \<Rightarrow> string list" where
  "str_split s = split_from [] s"

text \<open>\<open>sep.join(xs)\<close>.\<close>

fun str_join :: "string \<Rightarrow> string list \<Rightarrow> string" where
  "str_join sep [] = []"
| "str_join sep [x] = x"
| "str_join sep (x # y # ys) = x @ sep @ str_join sep (y # ys)"

text \<open>\<open>s.startswith(p)\<close>.\<close>

definition startswith :: "string \<Rightarrow> string \<Rightarrow> bool" where
  "startswith s p = prefix p s"

section \<open>prepare.py: the local identifier\<close>

text \<open>
  \<open>map_entity\<close>, both branches:
  \<^verbatim>\<open>name.lower().replace(" ", "_").replace(".", "").replace(",", "").replace("(", "").replace(")", "")\<close>
\<close>

definition local_id :: "string \<Rightarrow> string" where
  "local_id name =
     str_replace (str_replace (str_replace (str_replace (str_replace (lower name)
       '' '' ''_'') ''.'' '''') '','' '''') ''('' '''') '')'' ''''"

section \<open>prepare.py: matching names to text files\<close>

text \<open>\<open>sub in s\<close> for strings: \<open>sub\<close> occurs in \<open>s\<close> as a contiguous block.\<close>

fun str_contains :: "string \<Rightarrow> string \<Rightarrow> bool" where
  "str_contains sub [] = (sub = [])"
| "str_contains sub (c # cs) = (prefix sub (c # cs) \<or> str_contains sub cs)"

text \<open>
  The candidates of one name, as \<open>_build_text_mapping\<close> appends them: the
  \<open>lastname_firstnames\<close> forms, then \<open>firstname_lastname\<close>, then the full name.
\<close>

definition gen_candidates :: "string \<Rightarrow> string list" where
  "gen_candidates name =
     (let name_parts = str_split name;
          c1 = (if length name_parts \<ge> 2
                then (let lastname = lower (last name_parts);
                          firstnames = map lower (butlast name_parts)
                      in [lastname @ ''_'' @ str_join ''_'' firstnames] @
                         (if length firstnames > 1
                          then [lastname @ ''_'' @ last firstnames,
                                lastname @ ''_'' @ hd firstnames]
                          else []))
                else []);
          c2 = (if length name_parts \<ge> 2
                then (let firstname = lower (hd name_parts);
                          lastname = lower (last name_parts)
                      in [firstname @ ''_'' @ lastname])
                else []);
          c3 = [str_replace (str_replace (str_replace (lower name) '' '' ''_'') ''.'' '''')
                  '','' '''']
      in c1 @ c2 @ c3)"

text \<open>The second pass: \<^verbatim>\<open>c.replace("(", "").replace(")", "").replace(".", "")\<close>.\<close>

definition clean_candidate :: "string \<Rightarrow> string" where
  "clean_candidate c = str_replace (str_replace (str_replace c ''('' '''') '')'' '''') ''.'' ''''"

definition candidates :: "string \<Rightarrow> string list" where
  "candidates name = map clean_candidate (gen_candidates name)"

text \<open>
  The comparison key of a text file:
  \<^verbatim>\<open>stem = text_file.name.replace(".pdf.txt", "").replace(".txt", "")\<close>
\<close>

definition stem :: "string \<Rightarrow> string" where
  "stem fname = str_replace (str_replace fname ''.pdf.txt'' '''') ''.txt'' ''''"

text \<open>
  The inner loop over the text files, for one candidate: the first file of the listing
  whose key equals the candidate, both lowercased. A file is given by its name (the
  directory is listed flat).
\<close>

fun check_files :: "string \<Rightarrow> string list \<Rightarrow> string option" where
  "check_files candidate [] = None"
| "check_files candidate (text_file # rest) =
     (if lower (stem text_file) = lower candidate then Some text_file
      else check_files candidate rest)"

text \<open>
  The loop over the candidates of one name. It stores a match in the mapping and stops as
  soon as the name is a key of the mapping.
\<close>

fun check_candidates ::
  "(string \<rightharpoonup> string) \<Rightarrow> string \<Rightarrow> string list \<Rightarrow> string list \<Rightarrow> (string \<rightharpoonup> string)" where
  "check_candidates mapping name [] text_files = mapping"
| "check_candidates mapping name (candidate # rest) text_files =
     (let mapping' = (case check_files candidate text_files of
                        Some text_file \<Rightarrow> mapping(name \<mapsto> text_file)
                      | None \<Rightarrow> mapping)
      in if mapping' name \<noteq> None then mapping'
         else check_candidates mapping' name rest text_files)"

fun build_loop ::
  "string list \<Rightarrow> string list \<Rightarrow> (string \<rightharpoonup> string) \<Rightarrow> (string \<rightharpoonup> string)" where
  "build_loop text_files [] mapping = mapping"
| "build_loop text_files (name # names) mapping =
     build_loop text_files names (check_candidates mapping name (candidates name) text_files)"

text \<open>\<open>_build_text_mapping\<close>, for the names of \<open>personal.csv\<close> and the listing of the text directory.\<close>

definition build_text_mapping :: "string list \<Rightarrow> string list \<Rightarrow> (string \<rightharpoonup> string)" where
  "build_text_mapping names text_files = build_loop text_files names Map.empty"

subsection \<open>The comparison key as the specification words it\<close>

text \<open>\<open>s.endswith(p)\<close>.\<close>

definition endswith :: "string \<Rightarrow> string \<Rightarrow> bool" where
  "endswith s p = (length p \<le> length s \<and> drop (length s - length p) s = p)"

text \<open>
  The specification's key: the file name without a trailing \<open>.pdf.txt\<close> or \<open>.txt\<close>;
  nothing else of the name is touched.
\<close>

definition spec_comparison_key :: "string \<Rightarrow> string" where
  "spec_comparison_key fname =
     (if endswith fname ''.pdf.txt'' then take (length fname - 8) fname
      else if endswith fname ''.txt'' then take (length fname - 4) fname
      else fname)"

section \<open>prepare.py: entity resolution\<close>

text \<open>The exceptions the two scripts can meet.\<close>

datatype exn =
    ValueError string
  | KeyError string
  | JSONDecodeError
  | ConnectionError
  | RequestException
  | IOError

text \<open>
  The Wikidata search is outside the program. For one name, \<open>requests.get\<close> raises or
  returns a response with a status code and a body; the body is no JSON, or a JSON object
  whose \<open>search\<close> entry (when present) lists results, each with an optional \<open>id\<close> and an
  optional \<open>description\<close>.
\<close>

record search_result =
  result_id :: "string option"
  result_description :: "string option"

datatype search_body = NotJson | Json "search_result list option"

datatype get_outcome = GetRaises exn | GetResponse nat search_body

text \<open>A row of \<open>personal.csv\<close>. A year cell is missing (NaN), or a value that \<open>int()\<close>
  converts, or one on which \<open>int()\<close> raises.\<close>

datatype cell = Missing | Convertible int | Unconvertible

record person =
  full_name :: string
  birthyear :: cell
  deathyear :: cell
  birthplace :: "string option"

text \<open>What \<open>exists()\<close> and \<open>read_text()\<close> find for a path.\<close>

datatype file_state = NoSuchFile | Unreadable | Content string

text \<open>
  The adapter object with its collaborators: the search service, the entity validator,
  the mapping built by \<open>_build_text_mapping\<close>, and the file system.
\<close>

record adapter_env =
  search :: "string \<Rightarrow> get_outcome"
  validate :: "string \<Rightarrow> bool"
  text_files :: "string \<rightharpoonup> string"
  read_file :: "string \<Rightarrow> file_state"

text \<open>The loop over the results: the first result whose lowercased description contains
  \<open>mathematician\<close> gives its \<open>id\<close>; \<open>result["id"]\<close> raises when there is none.\<close>

fun scan_results :: "search_result list \<Rightarrow> exn + string option" where
  "scan_results [] = Inr None"
| "scan_results (r # rs) =
     (let desc = lower (case result_description r of None \<Rightarrow> [] | Some d \<Rightarrow> d)
      in if str_contains ''mathematician'' desc
         then (case result_id r of None \<Rightarrow> Inl (KeyError ''id'') | Some qid \<Rightarrow> Inr (Some qid))
         else scan_results rs)"

text \<open>The body of the \<open>try\<close> of \<open>lookup_wikidata\<close>.\<close>

definition lookup_try :: "get_outcome \<Rightarrow> exn + string option" where
  "lookup_try outcome =
     (case outcome of
        GetRaises e \<Rightarrow> Inl e
      | GetResponse status_code body \<Rightarrow>
          if status_code \<noteq> 200 then Inr None
          else (case body of
                  NotJson \<Rightarrow> Inl JSONDecodeError
                | Json results \<Rightarrow>
                    scan_results (case results of None \<Rightarrow> [] | Some rs \<Rightarrow> rs)))"

text \<open>\<open>lookup_wikidata\<close>: \<open>except Exception\<close> turns every exception into \<open>None\<close>.\<close>

definition lookup_wikidata :: "adapter_env \<Rightarrow> string \<Rightarrow> string option" where
  "lookup_wikidata env name =
     (case lookup_try (search env name) of Inl e \<Rightarrow> None | Inr r \<Rightarrow> r)"

text \<open>
  The result of \<open>map_entity\<close>. The confidence is one of the two constants \<open>0.8\<close> and
  \<open>0.5\<close> of the source, written as the fractions \<open>4/5\<close> and \<open>1/2\<close>.
\<close>

record entity_mapping =
  entity_id :: string
  entity_ids :: "string list option"
  confidence :: rat

text \<open>\<open>if wikidata_qid:\<close> holds for a non-empty string only.\<close>

definition map_entity :: "adapter_env \<Rightarrow> person \<Rightarrow> exn + entity_mapping" where
  "map_entity env p =
     (let name = full_name p;
          wikidata_qid = lookup_wikidata env name;
          local = \<lparr>entity_id = ''local:women-in-math:'' @ local_id name,
                   entity_ids = None, confidence = 1/2\<rparr>;
          m = (case wikidata_qid of
                 None \<Rightarrow> local
               | Some qid \<Rightarrow>
                   if qid \<noteq> []
                   then \<lparr>entity_id = ''wikidata:'' @ qid,
                         entity_ids = Some [''local:women-in-math:'' @ local_id name],
                         confidence = 4/5\<rparr>
                   else local)
      in if \<not> validate env (entity_id m)
         then Inl (ValueError (''Invalid entity_id: '' @ entity_id m))
         else (case entity_ids m of
                 None \<Rightarrow> Inr m
               | Some eids \<Rightarrow>
                   (case find (\<lambda>eid. \<not> validate env eid) eids of
                      Some eid \<Rightarrow> Inl (ValueError (''Invalid alternate entity_id: '' @ eid))
                    | None \<Rightarrow> Inr m)))"

section \<open>prepare.py: building the dataset\<close>

text \<open>\<open>get_text\<close>: the text of the matched file; \<open>read_text\<close> may raise.\<close>

definition get_text :: "adapter_env \<Rightarrow> string \<Rightarrow> exn + string option" where
  "get_text env name =
     (case text_files env name of
        None \<Rightarrow> Inr None
      | Some text_file \<Rightarrow>
          (case read_file env text_file of
             NoSuchFile \<Rightarrow> Inr None
           | Unreadable \<Rightarrow> Inl IOError
           | Content t \<Rightarrow> Inr (Some t)))"

text \<open>\<^verbatim>\<open>int(person['birthyear']) if pd.notna(person['birthyear']) else None\<close>\<close>

definition year_of :: "cell \<Rightarrow> exn + int option" where
  "year_of c =
     (case c of
        Missing \<Rightarrow> Inr None
      | Convertible n \<Rightarrow> Inr (Some n)
      | Unconvertible \<Rightarrow> Inl (ValueError ''invalid literal for int()''))"

record biographical_data =
  birth_year :: "int option"
  death_year :: "int option"
  bio_birthplace :: "string option"
  bio_field :: string

record author =
  author_entity_id :: string
  author_entity_ids :: "string list option"
  author_entity_type :: string
  author_confidence :: rat
  author_name :: string
  author_biographical_data :: biographical_data

record text_item =
  item_entity_id :: string
  item_text :: string

text \<open>The two lists \<open>prepare\<close> appends to, and the exceptions its \<open>except\<close> printed.\<close>

record prep_state =
  authors :: "author list"
  texts :: "text_item list"
  errors :: "exn list"

definition make_author :: "person \<Rightarrow> entity_mapping \<Rightarrow> int option \<Rightarrow> int option \<Rightarrow> author" where
  "make_author p m b_year d_year =
     \<lparr>author_entity_id = entity_id m,
      author_entity_ids = entity_ids m,
      author_entity_type = ''person'',
      author_confidence = confidence m,
      author_name = full_name p,
      author_biographical_data =
        \<lparr>birth_year = b_year, death_year = d_year, bio_birthplace = birthplace p,
         bio_field = ''wikidata:Q395''\<rparr>\<rparr>"

text \<open>
  The body of the \<open>try\<close> of \<open>prepare\<close> for one record, in the order of the source: map the
  entity, build the author (the two \<open>int()\<close> conversions), append the author, read the
  text, append the text when it is not empty. The result is the state reached and the
  exception raised, if any: what was appended before a \<open>raise\<close> stays appended.
\<close>

definition try_body :: "adapter_env \<Rightarrow> person \<Rightarrow> prep_state \<Rightarrow> prep_state \<times> exn option" where
  "try_body env p st =
     (case map_entity env p of
        Inl e \<Rightarrow> (st, Some e)
      | Inr m \<Rightarrow>
          (case year_of (birthyear p) of
             Inl e \<Rightarrow> (st, Some e)
           | Inr b_year \<Rightarrow>
               (case year_of (deathyear p) of
                  Inl e \<Rightarrow> (st, Some e)
                | Inr d_year \<Rightarrow>
                    (let st1 = st\<lparr>authors := authors st @ [make_author p m b_year d_year]\<rparr>
                     in case get_text env (full_name p) of
                          Inl e \<Rightarrow> (st1, Some e)
                        | Inr None \<Rightarrow> (st1, None)
                        | Inr (Some t) \<Rightarrow>
                            if t \<noteq> []
                            then (st1\<lparr>texts := texts st1 @
                                    [\<lparr>item_entity_id = entity_id m, item_text = t\<rparr>]\<rparr>, None)
                            else (st1, None)))))"

text \<open>One turn of the loop: the \<open>except\<close> prints the exception and goes on.\<close>

definition process_person :: "adapter_env \<Rightarrow> person \<Rightarrow> prep_state \<Rightarrow> prep_state" where
  "process_person env p st =
     (case try_body env p st of
        (st', None) \<Rightarrow> st'
      | (st', Some e) \<Rightarrow> st'\<lparr>errors := errors st' @ [e]\<rparr>)"

fun prepare_loop :: "adapter_env \<Rightarrow> person list \<Rightarrow> prep_state \<Rightarrow> prep_state" where
  "prepare_loop env [] st = st"
| "prepare_loop env (p # ps) st = prepare_loop env ps (process_person env p st)"

record dataset =
  dataset_id :: string
  dataset_name :: string
  specification_version :: string
  description :: string
  dataset_authors :: "author list"

definition init_state :: prep_state where
  "init_state = \<lparr>authors = [], texts = [], errors = []\<rparr>"

text \<open>\<open>prepare\<close>: the dataset document and the texts list.\<close>

definition prepare :: "adapter_env \<Rightarrow> person list \<Rightarrow> dataset \<times> text_item list" where
  "prepare env personal =
     (let st = prepare_loop env personal init_state
      in (\<lparr>dataset_id = ''women-in-math'',
           dataset_name = ''Women in Mathematics'',
           specification_version = ''0.0.1'',
           description = ''Biographical data of women mathematicians from 1800s-1900s'',
           dataset_authors = authors st\<rparr>,
          texts st))"

section \<open>submit.py\<close>

text \<open>A JSON file of the output directory: absent, not loadable by \<open>json.load\<close>, or
  loaded.\<close>

datatype 'a json_file = Absent | Malformed | Parsed 'a

text \<open>
  The remote API is outside the program. A \<open>requests.post\<close> raises or returns a response
  with a status code; \<open>response.json()\<close> and the \<open>get\<close> on its result succeed on a JSON
  object and raise otherwise.
\<close>

datatype reply_body = NotJsonObject | JsonObject

datatype post_outcome = PostRaises exn | PostResponse nat reply_body

text \<open>The HTTP requests the submitter attempts, in order.\<close>

datatype request = PostDataset dataset | PostIngest text_item

text \<open>
  The submitter's surroundings: the two files (for \<open>texts.json\<close> the value of its
  \<open>texts\<close> key, if it has one), and what the API does with the metadata request and with
  the \<open>idx\<close>-th ingestion request.
\<close>

record submit_env =
  dataset_file :: "dataset json_file"
  texts_file :: "text_item list option json_file"
  post_metadata :: "dataset \<Rightarrow> post_outcome"
  post_ingest :: "nat \<Rightarrow> text_item \<Rightarrow> post_outcome"

text \<open>
  \<open>submit_metadata\<close>: the requests attempted, and the value returned (\<open>Inr\<close>) or the
  exception that leaves the function (\<open>Inl\<close>; the file is loaded outside the \<open>try\<close>).
\<close>

definition submit_metadata :: "submit_env \<Rightarrow> request list \<times> (exn + bool)" where
  "submit_metadata env =
     (case dataset_file env of
        Absent \<Rightarrow> ([], Inr False)
      | Malformed \<Rightarrow> ([], Inl JSONDecodeError)
      | Parsed d \<Rightarrow>
          ([PostDataset d],
           (case post_metadata env d of
              PostRaises e \<Rightarrow> Inr False
            | PostResponse status_code body \<Rightarrow>
                if status_code = 200
                then (case body of NotJsonObject \<Rightarrow> Inr False | JsonObject \<Rightarrow> Inr True)
                else Inr False)))"

record ingest_state =
  success_count :: nat
  failed_count :: nat
  attempted :: "request list"

text \<open>One turn of the loop of \<open>submit_texts\<close>: post the item, then count it.\<close>

definition ingest_item :: "post_outcome \<Rightarrow> text_item \<Rightarrow> ingest_state \<Rightarrow> ingest_state" where
  "ingest_item outcome text_data st =
     (let st1 = st\<lparr>attempted := attempted st @ [PostIngest text_data]\<rparr>
      in case outcome of
           PostRaises e \<Rightarrow> st1\<lparr>failed_count := failed_count st1 + 1\<rparr>
         | PostResponse status_code body \<Rightarrow>
             if status_code = 200
             then (case body of
                     NotJsonObject \<Rightarrow> st1\<lparr>failed_count := failed_count st1 + 1\<rparr>
                   | JsonObject \<Rightarrow> st1\<lparr>success_count := success_count st1 + 1\<rparr>)
             else st1\<lparr>failed_count := failed_count st1 + 1\<rparr>)"

text \<open>\<open>for idx, text_data in enumerate(texts, 1)\<close>\<close>

fun ingest_loop ::
  "(nat \<Rightarrow> text_item \<Rightarrow> post_outcome) \<Rightarrow> nat \<Rightarrow> text_item list \<Rightarrow> ingest_state \<Rightarrow> ingest_state" where
  "ingest_loop post idx [] st = st"
| "ingest_loop post idx (text_data # rest) st =
     ingest_loop post (Suc idx) rest (ingest_item (post idx text_data) text_data st)"

definition ingest_all :: "submit_env \<Rightarrow> text_item list \<Rightarrow> ingest_state" where
  "ingest_all env txts =
     ingest_loop (post_ingest env) 1 txts \<lparr>success_count = 0, failed_count = 0, attempted = []\<rparr>"

text \<open>\<open>submit_texts\<close>: the requests attempted and the value returned or the exception.\<close>

definition submit_texts :: "submit_env \<Rightarrow> request list \<times> (exn + nat)" where
  "submit_texts env =
     (case texts_file env of
        Absent \<Rightarrow> ([], Inr 0)
      | Malformed \<Rightarrow> ([], Inl JSONDecodeError)
      | Parsed data \<Rightarrow>
          (let txts = (case data of None \<Rightarrow> [] | Some ts \<Rightarrow> ts)
           in if txts = [] then ([], Inr 0)
              else (let st = ingest_all env txts in (attempted st, Inr (success_count st)))))"

text \<open>\<open>submit_all\<close>: phase 1, then phase 2 unless phase 1 returned \<open>False\<close>.\<close>

definition submit_all :: "submit_env \<Rightarrow> request list \<times> (exn + unit)" where
  "submit_all env =
     (case submit_metadata env of
        (reqs, Inl e) \<Rightarrow> (reqs, Inl e)
      | (reqs, Inr ok) \<Rightarrow>
          if \<not> ok then (reqs, Inr ())
          else (case submit_texts env of
                  (reqs', Inl e) \<Rightarrow> (reqs @ reqs', Inl e)
                | (reqs', Inr ingested) \<Rightarrow> (reqs @ reqs', Inr ())))"

fun is_ingest :: "request \<Rightarrow> bool" where
  "is_ingest (PostIngest t) = True"
| "is_ingest (PostDataset d) = False"

text \<open>The item counts as a success: status 200 and a body that \<open>response.json()\<close> reads.\<close>

fun is_success :: "post_outcome \<Rightarrow> bool" where
  "is_success (PostResponse status_code JsonObject) = (status_code = 200)"
| "is_success (PostResponse status_code NotJsonObject) = False"
| "is_success (PostRaises e) = False"

section \<open>Conditions and sample surroundings used in the statements\<close>

text \<open>An exception leaves the \<open>try\<close> of \<open>prepare\<close> before \<open>authors.append\<close>: from
  \<open>map_entity\<close> or from one of the two \<open>int()\<close> conversions.\<close>

definition raises_before_append :: "adapter_env \<Rightarrow> person \<Rightarrow> bool" where
  "raises_before_append env p =
     (isl (map_entity env p) \<or> isl (year_of (birthyear p)) \<or> isl (year_of (deathyear p)))"

text \<open>What the API answered to the requests of the loop of \<open>submit_texts\<close>, in order.\<close>

definition outcomes ::
  "(nat \<Rightarrow> text_item \<Rightarrow> post_outcome) \<Rightarrow> nat \<Rightarrow> text_item list \<Rightarrow> post_outcome list" where
  "outcomes post idx txts = map (\<lambda>(i, t). post i t) (zip [idx..<idx + length txts] txts)"

definition ada :: person where
  "ada = \<lparr>full_name = ''Ada Lovelace'', birthyear = Convertible 1815,
          deathyear = Convertible 1852, birthplace = Some ''London''\<rparr>"

definition emmy :: person where
  "emmy = \<lparr>full_name = ''Emmy Noether'', birthyear = Convertible 1882,
           deathyear = Convertible 1935, birthplace = Some ''Erlangen''\<rparr>"

definition sofia :: person where
  "sofia = \<lparr>full_name = ''Sofia Kovalevskaya'', birthyear = Convertible 1850,
            deathyear = Missing, birthplace = None\<rparr>"

text \<open>No network, a validator that accepts everything, no text files.\<close>

definition env_offline :: adapter_env where
  "env_offline =
     \<lparr>search = (\<lambda>name. GetRaises ConnectionError),
      validate = (\<lambda>eid. True),
      text_files = Map.empty,
      read_file = (\<lambda>f. NoSuchFile)\<rparr>"

text \<open>A text file is matched to Ada Lovelace and cannot be read.\<close>

definition env_unreadable :: adapter_env where
  "env_unreadable =
     env_offline\<lparr>text_files := [''Ada Lovelace'' \<mapsto> ''lovelace_ada.txt''],
                 read_file := (\<lambda>f. Unreadable)\<rparr>"

text \<open>The validator rejects the local identifier of Ada Lovelace, and only that.\<close>

definition env_rejecting :: adapter_env where
  "env_rejecting =
     env_offline\<lparr>validate := (\<lambda>eid. eid \<noteq> ''local:women-in-math:ada_lovelace'')\<rparr>"

text \<open>The search answers with one result, a mathematician.\<close>

definition env_found :: adapter_env where
  "env_found =
     env_offline\<lparr>search := (\<lambda>name. GetResponse 200 (Json (Some
        [\<lparr>result_id = Some ''Q7259'',
          result_description = Some ''English mathematician and writer''\<rparr>])))\<rparr>"

definition sample_texts :: "text_item list" where
  "sample_texts =
     [\<lparr>item_entity_id = ''wikidata:Q7259'', item_text = ''Augusta Ada King''\<rparr>,
      \<lparr>item_entity_id = ''local:women-in-math:emmy_noether'', item_text = ''Amalie Emmy Noether''\<rparr>,
      \<lparr>item_entity_id = ''local:women-in-math:sofia_kovalevskaya'', item_text = ''Sofia''\<rparr>]"

text \<open>
  Both files are there; the API answers 500 to the metadata request; the first ingestion
  request cannot connect, the second succeeds, the third is answered 500.
\<close>

definition env_http_500 :: submit_env where
  "env_http_500 =
     \<lparr>dataset_file = Parsed (fst (prepare env_offline [ada])),
      texts_file = Parsed (Some sample_texts),
      post_metadata = (\<lambda>d. PostResponse 500 NotJsonObject),
      post_ingest = (\<lambda>idx t. if idx = 1 then PostRaises ConnectionError
                               else if idx = 2 then PostResponse 200 JsonObject
                               else PostResponse 500 JsonObject)\<rparr>"

section \<open>Properties of the string operations\<close>

lemma replace_from_single:
  "replace_from [c] new s = concat (map (\<lambda>x. if x = c then new else [x]) s)"
  by (induction s) auto

lemma str_replace_single:
  "str_replace s [c] new = concat (map (\<lambda>x. if x = c then new else [x]) s)"
  by (simp add: str_replace_def replace_from_single)

lemma str_replace_absent: "c \<notin> set s \<Longrightarrow> str_replace s [c] new = s"
  by (induction s) (auto simp: str_replace_single)

lemma set_str_replace_delete: "set (str_replace s [c] []) = set s - {c}"
  by (induction s) (auto simp: str_replace_single)

lemma set_str_replace_char:
  "set (str_replace s [c] [d]) = (if c \<in> set s then insert d (set s - {c}) else set s)"
  by (induction s) (auto simp: str_replace_single)

lemma lower_char_idem: "lower_char (lower_char c) = lower_char c"
  by (auto simp: lower_char_def Let_def)

lemma lower_fixed: "\<forall>c \<in> set s. lower_char c = c \<Longrightarrow> lower s = s"
  by (simp add: lower_def map_idI)

lemma set_local_id_subset:
  "set (local_id s) \<subseteq> insert (CHR ''_'') (lower_char ` set s) - {CHR '' '', CHR ''.'', CHR '','', CHR ''('', CHR '')''}"
  by (auto simp: local_id_def set_str_replace_delete set_str_replace_char lower_def split: if_splits)

lemma lower_local_id: "lower (local_id s) = local_id s"
proof (rule lower_fixed, rule ballI)
  fix c assume "c \<in> set (local_id s)"
  with set_local_id_subset have "c = CHR ''_'' \<or> c \<in> lower_char ` set s" by blast
  then show "lower_char c = c"
    by (auto simp: lower_char_idem) (simp add: lower_char_def)
qed

lemma local_id_clean: "c \<in> {CHR '' '', CHR ''.'', CHR '','', CHR ''('', CHR '')''} \<Longrightarrow> c \<notin> set (local_id s)"
  using set_local_id_subset by blast

text \<open>
  Claim C7. The local slug (lowercase, spaces replaced by underscores, periods, commas
  and parentheses removed) is idempotent: applied to its own result it changes nothing.
\<close>

theorem local_id_idempotent: "local_id (local_id s) = local_id s"
proof -
  have "local_id (local_id s) =
     str_replace (str_replace (str_replace (str_replace (str_replace (local_id s)
       '' '' ''_'') ''.'' '''') '','' '''') ''('' '''') '')'' ''''"
    unfolding local_id_def [of "local_id s"] by (simp only: lower_local_id)
  also have "\<dots> = local_id s"
    by (simp add: str_replace_absent local_id_clean)
  finally show ?thesis .
qed

section \<open>Properties of the name matcher\<close>

















text \<open>
  A file listed earlier whose key differs from \<open>arnoldy_nicholas\<close> by case only wins as
  well.
\<close>

lemma earlier_file_with_equal_key:
  "build_text_mapping [''Sister Mary Nicholas Arnoldy'']
     [''Arnoldy_Nicholas.pdf.txt'', ''arnoldy_nicholas.txt'']
     ''Sister Mary Nicholas Arnoldy'' = Some ''Arnoldy_Nicholas.pdf.txt''"
  by code_simp


text \<open>
  Claim C2. The comparison key is meant to be the file name without its trailing
  \<open>.pdf.txt\<close> or \<open>.txt\<close> (the source's comment: "Remove .pdf.txt or .txt extension").
  The two \<open>replace\<close> calls remove every occurrence instead: for the file
  \<open>adams_rachel.txt.pdf.txt\<close> the key of the source is \<open>adams_rachel\<close>, where removing the
  trailing suffix gives \<open>adams_rachel.txt\<close>; so the file is matched to Rachel Adams.
\<close>

theorem stem_removes_inner_suffix:
  "stem ''adams_rachel.txt.pdf.txt'' = ''adams_rachel'' \<and>
   spec_comparison_key ''adams_rachel.txt.pdf.txt'' = ''adams_rachel.txt'' \<and>
   build_text_mapping [''Rachel Adams''] [''adams_rachel.txt.pdf.txt''] ''Rachel Adams'' =
     Some ''adams_rachel.txt.pdf.txt''"
  by code_simp

section \<open>Properties of the entity resolver\<close>

lemma lookup_try_raises: "lookup_try (GetRaises e) = Inl e"
  by (simp add: lookup_try_def)

lemma lookup_try_status: "status_code \<noteq> 200 \<Longrightarrow> lookup_try (GetResponse status_code body) = Inr None"
  by (simp add: lookup_try_def)

lemma lookup_try_not_json: "lookup_try (GetResponse 200 NotJson) = Inl JSONDecodeError"
  by (simp add: lookup_try_def)

lemma lookup_try_no_results: "lookup_try (GetResponse 200 (Json (Some []))) = Inr None"
  by (simp add: lookup_try_def)

lemma lookup_wikidata_None:
  "(\<forall>qid. lookup_try (search env name) \<noteq> Inr (Some qid)) \<Longrightarrow> lookup_wikidata env name = None"
  by (auto simp: lookup_wikidata_def split: sum.splits)

text \<open>
  Claim C3. Whatever the search service and the validator do, a mapping that
  \<open>map_entity\<close> returns has confidence 0.5 or 0.8, its \<open>entity_id\<close> starts with exactly one
  of \<open>wikidata:\<close> and \<open>local:\<close>, and the confidence is 0.8 exactly when the prefix is
  \<open>wikidata:\<close>.
\<close>

theorem map_entity_result:
  assumes "map_entity env p = Inr m"
  shows "(confidence m = 1/2 \<or> confidence m = 4/5) \<and>
         (startswith (entity_id m) ''wikidata:'' \<noteq> startswith (entity_id m) ''local:'') \<and>
         (confidence m = 4/5 \<longleftrightarrow> startswith (entity_id m) ''wikidata:'')"
  using assms
  by (auto simp: map_entity_def Let_def startswith_def split: option.splits if_splits)

text \<open>
  Claim C3 on a search that finds a mathematician.
\<close>

theorem map_entity_result_witness:
  "map_entity env_found ada =
     Inr \<lparr>entity_id = ''wikidata:Q7259'',
          entity_ids = Some [''local:women-in-math:ada_lovelace''], confidence = 4/5\<rparr> \<and>
   startswith ''wikidata:Q7259'' ''wikidata:'' \<and> \<not> startswith ''wikidata:Q7259'' ''local:''"
proof -
  have h: "map_entity env_found ada =
     Inr \<lparr>entity_id = ''wikidata:Q7259'',
          entity_ids = Some [''local:women-in-math:ada_lovelace''], confidence = 4/5\<rparr>"
    by code_simp
  show ?thesis using h map_entity_result [OF h] by auto
qed

text \<open>
  Claim C4, as the source has it. When the body of the \<open>try\<close> of \<open>lookup_wikidata\<close> gives
  no Q-code (it raised, the status was not 200, or no result was a mathematician), the
  lookup returns \<open>None\<close> and raises nothing, and \<open>map_entity\<close> builds the local identifier
  with confidence 0.5 and no alternates. It returns that mapping when the validator accepts
  the identifier, and raises \<open>ValueError\<close> when the validator rejects it.
\<close>

theorem local_fallback:
  assumes "\<forall>qid. lookup_try (search env (full_name p)) \<noteq> Inr (Some qid)"
  shows "lookup_wikidata env (full_name p) = None \<and>
    (validate env (''local:women-in-math:'' @ local_id (full_name p)) \<longrightarrow>
       map_entity env p =
         Inr \<lparr>entity_id = ''local:women-in-math:'' @ local_id (full_name p),
              entity_ids = None, confidence = 1/2\<rparr>) \<and>
    (\<not> validate env (''local:women-in-math:'' @ local_id (full_name p)) \<longrightarrow>
       map_entity env p =
         Inl (ValueError (''Invalid entity_id: '' @ ''local:women-in-math:'' @ local_id (full_name p))))"
  using lookup_wikidata_None [OF assms]
  by (simp add: map_entity_def Let_def)

text \<open>
  Claim C4 without the validator's consent fails: the search cannot connect, the
  validator rejects the local identifier, and \<open>map_entity\<close> raises instead of returning.
\<close>

theorem local_fallback_counterexample:
  "lookup_try (search env_rejecting (full_name ada)) = Inl ConnectionError \<and>
   map_entity env_rejecting ada =
     Inl (ValueError ''Invalid entity_id: local:women-in-math:ada_lovelace'')"
  by code_simp

text \<open>
  The amended claim C4 with no network and a validator that accepts.
\<close>

theorem local_fallback_witness:
  "lookup_try (search env_offline (full_name ada)) = Inl ConnectionError \<and>
   validate env_offline ''local:women-in-math:ada_lovelace'' \<and>
   lookup_wikidata env_offline (full_name ada) = None \<and>
   map_entity env_offline ada =
     Inr \<lparr>entity_id = ''local:women-in-math:ada_lovelace'', entity_ids = None, confidence = 1/2\<rparr>"
proof -
  have h: "lookup_try (search env_offline (full_name ada)) = Inl ConnectionError"
    by (simp add: env_offline_def lookup_try_def)
  then have h': "\<forall>qid. lookup_try (search env_offline (full_name ada)) \<noteq> Inr (Some qid)"
    by simp
  have v: "validate env_offline ''local:women-in-math:ada_lovelace''"
    by (simp add: env_offline_def)
  have l: "local_id (full_name ada) = ''ada_lovelace''"
    by code_simp
  show ?thesis using h v local_fallback [OF h'] by (simp add: l)
qed

section \<open>Properties of prepare\<close>

lemma process_person_authors:
  "authors (process_person env p st) = authors st @ authors (process_person env p init_state)"
  by (simp add: process_person_def try_body_def init_state_def Let_def
        split: sum.splits option.splits)

lemma process_person_texts:
  "texts (process_person env p st) = texts st @ texts (process_person env p init_state)"
  by (simp add: process_person_def try_body_def init_state_def Let_def
        split: sum.splits option.splits)

lemma prepare_loop_authors:
  "authors (prepare_loop env ps st) = authors st @ authors (prepare_loop env ps init_state)"
proof (induction ps arbitrary: st)
  case Nil
  then show ?case by (simp add: init_state_def)
next
  case (Cons p ps)
  have "authors (prepare_loop env (p # ps) st) =
        authors (process_person env p st) @ authors (prepare_loop env ps init_state)"
    using Cons.IH [of "process_person env p st"] by simp
  also have "\<dots> = authors st @ authors (process_person env p init_state) @
                  authors (prepare_loop env ps init_state)"
    using process_person_authors [of env p st] by simp
  also have "\<dots> = authors st @ authors (prepare_loop env (p # ps) init_state)"
    using Cons.IH [of "process_person env p init_state"] by simp
  finally show ?case .
qed

lemma prepare_loop_texts:
  "texts (prepare_loop env ps st) = texts st @ texts (prepare_loop env ps init_state)"
proof (induction ps arbitrary: st)
  case Nil
  then show ?case by (simp add: init_state_def)
next
  case (Cons p ps)
  have "texts (prepare_loop env (p # ps) st) =
        texts (process_person env p st) @ texts (prepare_loop env ps init_state)"
    using Cons.IH [of "process_person env p st"] by simp
  also have "\<dots> = texts st @ texts (process_person env p init_state) @
                  texts (prepare_loop env ps init_state)"
    using process_person_texts [of env p st] by simp
  also have "\<dots> = texts st @ texts (prepare_loop env (p # ps) init_state)"
    using Cons.IH [of "process_person env p init_state"] by simp
  finally show ?case .
qed

lemma prepare_loop_append:
  "prepare_loop env (ps @ qs) st = prepare_loop env qs (prepare_loop env ps st)"
  by (induction ps arbitrary: st) simp_all

lemma authors_split:
  "authors (prepare_loop env (ps @ p # qs) init_state) =
   authors (prepare_loop env ps init_state) @ authors (process_person env p init_state) @
   authors (prepare_loop env qs init_state)"
proof -
  have "authors (prepare_loop env (ps @ p # qs) init_state) =
        authors (prepare_loop env qs (process_person env p (prepare_loop env ps init_state)))"
    by (simp add: prepare_loop_append)
  also have "\<dots> = authors (process_person env p (prepare_loop env ps init_state)) @
                  authors (prepare_loop env qs init_state)"
    by (rule prepare_loop_authors)
  also have "\<dots> = authors (prepare_loop env ps init_state) @
                  authors (process_person env p init_state) @
                  authors (prepare_loop env qs init_state)"
    using process_person_authors [of env p "prepare_loop env ps init_state"] by simp
  finally show ?thesis .
qed

lemma texts_split:
  "texts (prepare_loop env (ps @ p # qs) init_state) =
   texts (prepare_loop env ps init_state) @ texts (process_person env p init_state) @
   texts (prepare_loop env qs init_state)"
proof -
  have "texts (prepare_loop env (ps @ p # qs) init_state) =
        texts (prepare_loop env qs (process_person env p (prepare_loop env ps init_state)))"
    by (simp add: prepare_loop_append)
  also have "\<dots> = texts (process_person env p (prepare_loop env ps init_state)) @
                  texts (prepare_loop env qs init_state)"
    by (rule prepare_loop_texts)
  also have "\<dots> = texts (prepare_loop env ps init_state) @
                  texts (process_person env p init_state) @
                  texts (prepare_loop env qs init_state)"
    using process_person_texts [of env p "prepare_loop env ps init_state"] by simp
  finally show ?thesis .
qed

lemma authors_concat:
  "authors (prepare_loop env (ps @ qs) init_state) =
   authors (prepare_loop env ps init_state) @ authors (prepare_loop env qs init_state)"
  by (simp add: prepare_loop_append prepare_loop_authors [of env qs "prepare_loop env ps init_state"])

lemma texts_concat:
  "texts (prepare_loop env (ps @ qs) init_state) =
   texts (prepare_loop env ps init_state) @ texts (prepare_loop env qs init_state)"
  by (simp add: prepare_loop_append prepare_loop_texts [of env qs "prepare_loop env ps init_state"])

lemma early_raise_contributes_nothing:
  assumes "raises_before_append env p"
  shows "authors (process_person env p init_state) = []"
    and "texts (process_person env p init_state) = []"
  using assms
  by (auto simp: raises_before_append_def process_person_def try_body_def init_state_def Let_def
        split: sum.splits option.splits)

lemma read_raise_contribution:
  assumes "map_entity env p = Inr m" "year_of (birthyear p) = Inr b"
    "year_of (deathyear p) = Inr d" "get_text env (full_name p) = Inl e"
  shows "authors (process_person env p init_state) = [make_author p m b d]"
    and "texts (process_person env p init_state) = []"
  using assms
  by (auto simp: process_person_def try_body_def init_state_def Let_def)

text \<open>
  Claim C1, as the source has it. A record whose processing raises before the author is
  appended (in \<open>map_entity\<close>, which includes the validation, or in a year conversion)
  contributes to neither list: the result is that of the run without the record. A record
  whose text file cannot be read contributes its author, appended before the read, and no
  text. In both cases the records after it are processed.
\<close>

theorem prepare_exception:
  "(raises_before_append env p \<longrightarrow> prepare env (ps @ p # qs) = prepare env (ps @ qs)) \<and>
   (map_entity env p = Inr m \<and> year_of (birthyear p) = Inr b \<and>
    year_of (deathyear p) = Inr d \<and> get_text env (full_name p) = Inl e \<longrightarrow>
      dataset_authors (fst (prepare env (ps @ p # qs))) =
        dataset_authors (fst (prepare env ps)) @ make_author p m b d #
        dataset_authors (fst (prepare env qs)) \<and>
      snd (prepare env (ps @ p # qs)) = snd (prepare env (ps @ qs)))"
proof (intro conjI impI)
  assume r: "raises_before_append env p"
  have "authors (prepare_loop env (ps @ p # qs) init_state) =
        authors (prepare_loop env (ps @ qs) init_state)"
    using authors_split [of env ps p qs] authors_concat [of env ps qs]
    by (simp add: early_raise_contributes_nothing [OF r])
  moreover have "texts (prepare_loop env (ps @ p # qs) init_state) =
        texts (prepare_loop env (ps @ qs) init_state)"
    using texts_split [of env ps p qs] texts_concat [of env ps qs]
    by (simp add: early_raise_contributes_nothing [OF r])
  ultimately show "prepare env (ps @ p # qs) = prepare env (ps @ qs)"
    by (simp add: prepare_def Let_def)
next
  assume a: "map_entity env p = Inr m \<and> year_of (birthyear p) = Inr b \<and>
    year_of (deathyear p) = Inr d \<and> get_text env (full_name p) = Inl e"
  then have c: "authors (process_person env p init_state) = [make_author p m b d]"
    "texts (process_person env p init_state) = []"
    by (simp_all add: read_raise_contribution)
  have "authors (prepare_loop env (ps @ p # qs) init_state) =
        authors (prepare_loop env ps init_state) @ make_author p m b d #
        authors (prepare_loop env qs init_state)"
    using authors_split [of env ps p qs] by (simp add: c)
  then show "dataset_authors (fst (prepare env (ps @ p # qs))) =
        dataset_authors (fst (prepare env ps)) @ make_author p m b d #
        dataset_authors (fst (prepare env qs))"
    by (simp add: prepare_def Let_def)
  have "texts (prepare_loop env (ps @ p # qs) init_state) =
        texts (prepare_loop env (ps @ qs) init_state)"
    using texts_split [of env ps p qs] texts_concat [of env ps qs] by (simp add: c)
  then show "snd (prepare env (ps @ p # qs)) = snd (prepare env (ps @ qs))"
    by (simp add: prepare_def Let_def)
qed

text \<open>
  Claim C1 as stated fails for a failure while reading the text file: the author of the
  record is in the authors list.
\<close>

theorem prepare_exception_counterexample:
  "get_text env_unreadable (full_name ada) = Inl IOError \<and>
   map author_name (dataset_authors (fst (prepare env_unreadable [ada]))) = [''Ada Lovelace'']"
  by code_simp

text \<open>
  The amended claim C1 on three records, the second of which fails: once in the
  validation, once while its text file is read.
\<close>

theorem prepare_exception_witness:
  "raises_before_append env_rejecting ada \<and>
   prepare env_rejecting ([emmy] @ ada # [sofia]) = prepare env_rejecting ([emmy] @ [sofia]) \<and>
   get_text env_unreadable (full_name ada) = Inl IOError \<and>
   map author_name (dataset_authors (fst (prepare env_unreadable ([emmy] @ ada # [sofia])))) =
     [''Emmy Noether'', ''Ada Lovelace'', ''Sofia Kovalevskaya''] \<and>
   snd (prepare env_unreadable ([emmy] @ ada # [sofia])) = snd (prepare env_unreadable ([emmy] @ [sofia]))"
proof -
  have r: "raises_before_append env_rejecting ada"
    by code_simp
  have m: "map_entity env_unreadable ada =
      Inr \<lparr>entity_id = ''local:women-in-math:ada_lovelace'', entity_ids = None, confidence = 1/2\<rparr>"
    by code_simp
  have b: "year_of (birthyear ada) = Inr (Some 1815)" and d: "year_of (deathyear ada) = Inr (Some 1852)"
    by (simp_all add: ada_def year_of_def)
  have g: "get_text env_unreadable (full_name ada) = Inl IOError"
    by (simp add: env_unreadable_def env_offline_def ada_def get_text_def)
  have e: "map author_name (dataset_authors (fst (prepare env_unreadable [emmy]))) = [''Emmy Noether'']"
    by code_simp
  have s: "map author_name (dataset_authors (fst (prepare env_unreadable [sofia]))) = [''Sofia Kovalevskaya'']"
    by code_simp
  note t = prepare_exception [of env_rejecting ada "[emmy]" "[sofia]"]
  note u = prepare_exception [where env = env_unreadable and p = ada and ps = "[emmy]"
      and qs = "[sofia]" and b = "Some 1815" and d = "Some 1852" and e = IOError]
  from t r have 1: "prepare env_rejecting ([emmy] @ ada # [sofia]) = prepare env_rejecting ([emmy] @ [sofia])"
    by blast
  from u m b d g have 2: "dataset_authors (fst (prepare env_unreadable ([emmy] @ ada # [sofia]))) =
        dataset_authors (fst (prepare env_unreadable [emmy])) @
        make_author ada \<lparr>entity_id = ''local:women-in-math:ada_lovelace'', entity_ids = None, confidence = 1/2\<rparr> (Some 1815) (Some 1852) #
        dataset_authors (fst (prepare env_unreadable [sofia]))"
    and 3: "snd (prepare env_unreadable ([emmy] @ ada # [sofia])) = snd (prepare env_unreadable ([emmy] @ [sofia]))"
    by blast+
  have 4: "map author_name (dataset_authors (fst (prepare env_unreadable ([emmy] @ ada # [sofia])))) =
     [''Emmy Noether'', ''Ada Lovelace'', ''Sofia Kovalevskaya'']"
    unfolding 2 using e s by (simp add: make_author_def ada_def)
  show ?thesis using r 1 g 4 3 by blast
qed

section \<open>Properties of the submitter\<close>

lemma submit_metadata_True_iff:
  "snd (submit_metadata env) = Inr True \<longleftrightarrow>
     (\<exists>d. dataset_file env = Parsed d \<and> post_metadata env d = PostResponse 200 JsonObject)"
  by (auto simp: submit_metadata_def split: json_file.splits post_outcome.splits reply_body.splits)

lemma submit_metadata_no_ingest: "filter is_ingest (fst (submit_metadata env)) = []"
  by (simp add: submit_metadata_def split: json_file.splits)

text \<open>
  Claim C5. When \<open>submit_metadata\<close> does not return \<open>True\<close> (it returned \<open>False\<close>: file
  missing, connection failure, other exception of the request, status other than 200; or
  an exception left it), \<open>submit_all\<close> attempts the requests of phase 1 only, and no
  ingestion request.
\<close>

theorem metadata_failure_aborts:
  assumes "snd (submit_metadata env) \<noteq> Inr True"
  shows "fst (submit_all env) = fst (submit_metadata env) \<and>
         filter is_ingest (fst (submit_all env)) = []"
proof -
  obtain reqs r where sm: "submit_metadata env = (reqs, r)" by (cases "submit_metadata env")
  with assms have "r \<noteq> Inr True" by simp
  then have "fst (submit_all env) = reqs"
    by (cases r) (auto simp: submit_all_def sm)
  with sm submit_metadata_no_ingest [of env] show ?thesis by simp
qed

text \<open>
  Claim C5 on a metadata request answered with status 500, with three texts waiting.
\<close>

theorem metadata_failure_aborts_witness:
  "snd (submit_metadata env_http_500) = Inr False \<and>
   texts_file env_http_500 = Parsed (Some sample_texts) \<and>
   fst (submit_all env_http_500) = [PostDataset (fst (prepare env_offline [ada]))] \<and>
   filter is_ingest (fst (submit_all env_http_500)) = []"
proof -
  have h: "snd (submit_metadata env_http_500) = Inr False"
    by (simp add: submit_metadata_def env_http_500_def)
  then have h': "snd (submit_metadata env_http_500) \<noteq> Inr True" by simp
  have f: "fst (submit_metadata env_http_500) = [PostDataset (fst (prepare env_offline [ada]))]"
    by (simp add: submit_metadata_def env_http_500_def)
  have t: "texts_file env_http_500 = Parsed (Some sample_texts)"
    by (simp add: env_http_500_def)
  show ?thesis using h t f metadata_failure_aborts [OF h'] by simp
qed

text \<open>
  Claim C8. When \<open>texts.json\<close> is absent, \<open>submit_texts\<close> returns 0, raises nothing and
  attempts no request.
\<close>

theorem submit_texts_absent:
  "texts_file env = Absent \<Longrightarrow> submit_texts env = ([], Inr 0)"
  by (simp add: submit_texts_def)

text \<open>
  Claim C8 on surroundings without \<open>texts.json\<close>.
\<close>

theorem submit_texts_absent_witness:
  "texts_file (env_http_500\<lparr>texts_file := Absent\<rparr>) = Absent \<and>
   submit_texts (env_http_500\<lparr>texts_file := Absent\<rparr>) = ([], Inr 0)"
proof -
  have h: "texts_file (env_http_500\<lparr>texts_file := Absent\<rparr>) = Absent" by simp
  show ?thesis using h submit_texts_absent [OF h] by simp
qed

text \<open>
  Claim C10. When \<open>texts.json\<close> is there and its \<open>texts\<close> list is empty or the key is
  missing, \<open>submit_texts\<close> returns 0 and attempts no request.
\<close>

theorem submit_texts_empty:
  "texts_file env = Parsed None \<or> texts_file env = Parsed (Some []) \<Longrightarrow>
   submit_texts env = ([], Inr 0)"
  by (auto simp: submit_texts_def)

text \<open>
  Claim C10 on a file without the key and on a file with an empty list.
\<close>

theorem submit_texts_empty_witness:
  "texts_file (env_http_500\<lparr>texts_file := Parsed None\<rparr>) = Parsed None \<and>
   submit_texts (env_http_500\<lparr>texts_file := Parsed None\<rparr>) = ([], Inr 0) \<and>
   texts_file (env_http_500\<lparr>texts_file := Parsed (Some [])\<rparr>) = Parsed (Some []) \<and>
   submit_texts (env_http_500\<lparr>texts_file := Parsed (Some [])\<rparr>) = ([], Inr 0)"
proof -
  have h1: "texts_file (env_http_500\<lparr>texts_file := Parsed None\<rparr>) = Parsed None" by simp
  have h2: "texts_file (env_http_500\<lparr>texts_file := Parsed (Some [])\<rparr>) = Parsed (Some [])" by simp
  show ?thesis
    using h1 h2 submit_texts_empty [OF disjI1, OF h1] submit_texts_empty [OF disjI2, OF h2]
    by simp
qed

lemma ingest_item_attempted:
  "attempted (ingest_item out t st) = attempted st @ [PostIngest t]"
  by (simp add: ingest_item_def Let_def split: post_outcome.splits reply_body.splits)

lemma ingest_item_success:
  "success_count (ingest_item out t st) = success_count st + (if is_success out then 1 else 0)"
  by (cases out rule: is_success.cases) (simp_all add: ingest_item_def Let_def)

lemma ingest_item_failed:
  "failed_count (ingest_item out t st) = failed_count st + (if is_success out then 0 else 1)"
  by (cases out rule: is_success.cases) (simp_all add: ingest_item_def Let_def)

lemma outcomes_Cons:
  "outcomes post idx (t # ts) = post idx t # outcomes post (Suc idx) ts"
  by (simp add: outcomes_def upt_conv_Cons del: upt_Suc)

lemma length_outcomes: "length (outcomes post idx ts) = length ts"
  by (simp add: outcomes_def)

lemma ingest_loop_attempted:
  "attempted (ingest_loop post idx ts st) = attempted st @ map PostIngest ts"
  by (induction ts arbitrary: idx st) (simp_all add: ingest_item_attempted)

lemma ingest_loop_success:
  "success_count (ingest_loop post idx ts st) =
     success_count st + length (filter is_success (outcomes post idx ts))"
  by (induction ts arbitrary: idx st) (simp_all add: ingest_item_success outcomes_Cons, simp add: outcomes_def)

lemma ingest_loop_failed:
  "failed_count (ingest_loop post idx ts st) =
     failed_count st + length (filter (\<lambda>out. \<not> is_success out) (outcomes post idx ts))"
  by (induction ts arbitrary: idx st) (simp_all add: ingest_item_failed outcomes_Cons, simp add: outcomes_def)

text \<open>
  Claim C9. For every list of text items and every outcome of each request,
  \<open>submit_texts\<close> attempts one ingestion request per item, in list order; every item is
  counted once, as a success (status 200 with a readable body) or as a failure, so that the
  two counts add up to the number of items; and the value returned is the success count.
\<close>

theorem submit_texts_counts:
  assumes "texts_file env = Parsed (Some txts)"
  shows "fst (submit_texts env) = map PostIngest txts \<and>
         snd (submit_texts env) = Inr (success_count (ingest_all env txts)) \<and>
         attempted (ingest_all env txts) = map PostIngest txts \<and>
         success_count (ingest_all env txts) =
           length (filter is_success (outcomes (post_ingest env) 1 txts)) \<and>
         failed_count (ingest_all env txts) =
           length (filter (\<lambda>out. \<not> is_success out) (outcomes (post_ingest env) 1 txts)) \<and>
         success_count (ingest_all env txts) + failed_count (ingest_all env txts) = length txts"
proof -
  have a: "attempted (ingest_all env txts) = map PostIngest txts"
    by (simp add: ingest_all_def ingest_loop_attempted)
  have s: "success_count (ingest_all env txts) =
           length (filter is_success (outcomes (post_ingest env) 1 txts))"
    by (simp add: ingest_all_def ingest_loop_success)
  have f: "failed_count (ingest_all env txts) =
           length (filter (\<lambda>out. \<not> is_success out) (outcomes (post_ingest env) 1 txts))"
    by (simp add: ingest_all_def ingest_loop_failed)
  have n: "success_count (ingest_all env txts) + failed_count (ingest_all env txts) = length txts"
    unfolding s f using sum_length_filter_compl [of is_success "outcomes (post_ingest env) 1 txts"]
    by (simp add: length_outcomes)
  have e: "ingest_all env [] = \<lparr>success_count = 0, failed_count = 0, attempted = []\<rparr>"
    by (simp add: ingest_all_def)
  have r: "submit_texts env = (map PostIngest txts, Inr (success_count (ingest_all env txts)))"
    using assms a by (cases "txts = []") (simp_all add: submit_texts_def Let_def e)
  show ?thesis using r a s f n by simp
qed

text \<open>
  Claim C9 on three items: the first request cannot connect, the second succeeds, the
  third is answered 500.
\<close>

theorem submit_texts_counts_witness:
  "texts_file env_http_500 = Parsed (Some sample_texts) \<and>
   outcomes (post_ingest env_http_500) 1 sample_texts =
     [PostRaises ConnectionError, PostResponse 200 JsonObject, PostResponse 500 JsonObject] \<and>
   submit_texts env_http_500 = (map PostIngest sample_texts, Inr 1) \<and>
   failed_count (ingest_all env_http_500 sample_texts) = 2"
proof -
  have h: "texts_file env_http_500 = Parsed (Some sample_texts)"
    by (simp add: env_http_500_def)
  have o: "outcomes (post_ingest env_http_500) 1 sample_texts =
     [PostRaises ConnectionError, PostResponse 200 JsonObject, PostResponse 500 JsonObject]"
    by (simp add: outcomes_def env_http_500_def sample_texts_def upt_conv_Cons)
  show ?thesis using h o submit_texts_counts [OF h] by (simp add: prod_eq_iff)
qed

end
